theory Spec2Isabelle
  imports Complex_Main "HOL-Library.Multiset"
begin

section \<open>The journal server (Express handlers over journal\_data.txt)\<close>

subsection \<open>Stored data\<close>

text \<open>
  A stored journal entry is the object literal built by \<open>createJournalEntryInFile\<close>:
  \<open>{ date, title, time, text, color: color || "blue", photos: photoReferences }\<close>.
  The first four come from the multipart body, so each is a string or \<open>undefined\<close>
  (\<open>JSON.stringify\<close> drops an undefined property, \<open>JSON.parse\<close> gives it back as
  absent): \<open>None\<close> is \<open>undefined\<close>. The field \<open>text\<close> is written \<open>text'\<close>.
\<close>

record entry =
  date :: "string option"
  title :: "string option"
  time :: "string option"
  text' :: "string option"
  color :: string
  photos :: "string list"

text \<open>
  What \<open>journal_data.txt\<close> holds, seen through \<open>JSON.parse\<close>: a text that
  \<open>JSON.parse\<close> rejects with a SyntaxError, a JSON text whose value is falsy
  (\<open>null\<close>, \<open>false\<close>, \<open>0\<close>, \<open>""\<close>), or an array of entries, which is what every
  write of this server produces.
\<close>

datatype content = NotJson | JsonFalsy | JsonArray "entry list"

text \<open>
  The part of the file system the server touches: \<open>journal_data.txt\<close> (\<open>None\<close>: the
  file does not exist) and the paths of the other files present (multer's temporary
  uploads and the renamed photos).
\<close>

record store =
  journal_data :: "content option"
  files :: "string list"

datatype error = ENOENT | SyntaxError | RenameFailed string

subsection \<open>Reading the collection\<close>

text \<open>
  \<open>getAllJournalEntriesFromFile\<close>: \<open>fs.readFile\<close> rejects when the file is missing,
  \<open>JSON.parse\<close> throws on a text that is not JSON, the \<open>catch\<close> rethrows both;
  \<open>JSON.parse(data) || []\<close> replaces a falsy parse result by the empty array.
\<close>

definition getAllJournalEntriesFromFile :: "store \<Rightarrow> error + entry list" where
  "getAllJournalEntriesFromFile s =
     (case journal_data s of
        None \<Rightarrow> Inl ENOENT
      | Some NotJson \<Rightarrow> Inl SyntaxError
      | Some JsonFalsy \<Rightarrow> Inr []
      | Some (JsonArray es) \<Rightarrow> Inr es)"

text \<open>
  \<open>fs.writeFile('journal_data.txt', JSON.stringify(entries, null, 2))\<close>. The write
  is taken to succeed; a failing disk is not part of the model.
\<close>

definition writeFile :: "entry list \<Rightarrow> store \<Rightarrow> store" where
  "writeFile es s = s\<lparr>journal_data := Some (JsonArray es)\<rparr>"

subsection \<open>Responses\<close>

datatype json_body =
    EntryList "entry list"
  | OneEntry entry
  | SuccessTrue
  | ErrorBody string

text \<open>\<open>Response st b\<close> is \<open>res.status(st).json(b)\<close>; \<open>res.json(b)\<close> has status 200.\<close>

datatype response = Response nat json_body

fun status :: "response \<Rightarrow> nat" where
  "status (Response st b) = st"

subsection \<open>GET /api/journal/all\<close>

definition get_journal_all :: "store \<Rightarrow> response \<times> store" where
  "get_journal_all s =
     (case getAllJournalEntriesFromFile s of
        Inl e \<Rightarrow> (Response 500 (ErrorBody ''Failed to fetch journal entries''), s)
      | Inr allEntries \<Rightarrow> (Response 200 (EntryList allEntries), s))"

subsection \<open>PUT and DELETE /api/journal/entry/:index\<close>

text \<open>
  A property of the JSON body of a PUT request as the handler sees it after
  \<open>const { title, time, text } = req.body\<close>: absent (\<open>undefined\<close>), \<open>null\<close>, or a string.
\<close>

datatype body_field = Undefined | Null | Str string

record update_body =
  b_title :: body_field
  b_time :: body_field
  b_text :: body_field

text \<open>\<open>x ?? old\<close>: the left operand unless it is \<open>null\<close> or \<open>undefined\<close>.\<close>

fun nullish :: "body_field \<Rightarrow> string option \<Rightarrow> string option" where
  "nullish (Str x) old = Some x"
| "nullish Null old = old"
| "nullish Undefined old = old"

text \<open>\<open>{ ...entry, title: title ?? entry.title, time: ..., text: ... }\<close>.\<close>

definition merge_entry :: "update_body \<Rightarrow> entry \<Rightarrow> entry" where
  "merge_entry b e =
     e\<lparr>title := nullish (b_title b) (title e),
       time := nullish (b_time b) (time e),
       text' := nullish (b_text b) (text' e)\<rparr>"

text \<open>
  The handlers take the result of \<open>parseInt(req.params.index, 10)\<close>: \<open>None\<close> is NaN.
  The order of the checks is the source's: NaN, then the read (a throw is caught and
  answered with 500), then the range, then the write.
\<close>

definition put_entry :: "store \<Rightarrow> int option \<Rightarrow> update_body \<Rightarrow> response \<times> store" where
  "put_entry s index b =
     (case index of
        None \<Rightarrow> (Response 400 (ErrorBody ''Invalid index''), s)
      | Some i \<Rightarrow>
          (case getAllJournalEntriesFromFile s of
             Inl e \<Rightarrow> (Response 500 (ErrorBody ''Failed to update journal entry''), s)
           | Inr entries \<Rightarrow>
               if i < 0 \<or> i \<ge> int (length entries)
               then (Response 404 (ErrorBody ''Entry not found''), s)
               else
                 let entries' = entries[nat i := merge_entry b (entries ! nat i)]
                 in (Response 200 (OneEntry (entries' ! nat i)), writeFile entries' s)))"

text \<open>\<open>entries.splice(index, 1)\<close> removes the element at \<open>index\<close>.\<close>

definition splice1 :: "nat \<Rightarrow> 'a list \<Rightarrow> 'a list" where
  "splice1 i xs = take i xs @ drop (Suc i) xs"

definition delete_entry :: "store \<Rightarrow> int option \<Rightarrow> response \<times> store" where
  "delete_entry s index =
     (case index of
        None \<Rightarrow> (Response 400 (ErrorBody ''Invalid index''), s)
      | Some i \<Rightarrow>
          (case getAllJournalEntriesFromFile s of
             Inl e \<Rightarrow> (Response 500 (ErrorBody ''Failed to delete journal entry''), s)
           | Inr entries \<Rightarrow>
               if i < 0 \<or> i \<ge> int (length entries)
               then (Response 404 (ErrorBody ''Entry not found''), s)
               else (Response 200 SuccessTrue, writeFile (splice1 (nat i) entries) s)))"

subsection \<open>POST /api/journal\<close>

text \<open>
  An uploaded photo as multer hands it over in \<open>req.files\<close>: the client's file name
  and the path of the temporary file multer wrote.
\<close>

record upload =
  originalname :: string
  path :: string

text \<open>The decimal text of a number, as a template literal renders \<open>Date.now()\<close>.\<close>

function decimal :: "nat \<Rightarrow> string" where
  "decimal n =
     (if n < 10 then [''0123456789'' ! n]
      else decimal (n div 10) @ [''0123456789'' ! (n mod 10)])"
  by pat_completeness auto
termination
  by (relation "measure (\<lambda>n. n)") auto

declare decimal.simps [simp del]

text \<open>\<open>`${Date.now()}-${file.originalname}`\<close>, with the clock reading passed in.\<close>

definition uniqueFileName :: "nat \<Rightarrow> upload \<Rightarrow> string" where
  "uniqueFileName now file = decimal now @ ''-'' @ originalname file"

text \<open>
  \<open>path.join(__dirname, "uploads", uniqueFileName)\<close>; paths are written relative to the
  server's directory.
\<close>

definition filePath :: "string \<Rightarrow> string" where
  "filePath uniqueName = ''uploads/'' @ uniqueName"

text \<open>
  \<open>fs.rename(src, dst)\<close> on the list of files present: it rejects when the source does
  not exist (the one cause of rejection in the model); otherwise the source is gone and
  the destination exists.
\<close>

definition rename :: "string \<Rightarrow> string \<Rightarrow> string list \<Rightarrow> string list option" where
  "rename src dst fs =
     (if src \<in> set fs then Some (List.insert dst (removeAll src fs)) else None)"

text \<open>
  \<open>files.map(async (file) => ...)\<close> runs every callback up to its \<open>await fs.rename\<close>
  at once, in input order: the \<open>i\<close>-th callback reads the clock (\<open>clock i\<close> is what
  its \<open>Date.now()\<close> returns), builds its name and starts its rename. What is left of
  each callback is the pair of the source path and the unique name.
\<close>

definition callbacks :: "(nat \<Rightarrow> nat) \<Rightarrow> upload list \<Rightarrow> (string \<times> string) list" where
  "callbacks clock fls =
     map (\<lambda>(i, file). (path file, uniqueFileName (clock i) file)) (enumerate 0 fls)"

text \<open>
  The renames run concurrently, and each callback resumes (and pushes its reference)
  when its own rename settles. The order in which they settle is not fixed by the
  program; it is an input of the model. A schedule is a list of choices: choice \<open>k\<close>
  lets the pending operation at position \<open>k mod (number pending)\<close> settle next; when
  the choices run out the rest settle in input order. Every list of choices is a
  schedule, and \<open>[]\<close> is the one in which the renames settle in input order.
\<close>

function completion :: "nat list \<Rightarrow> 'a list \<Rightarrow> 'a list" where
  "completion ks [] = []"
| "completion [] (p # ps) = p # ps"
| "completion (k # ks) (p # ps) =
     (p # ps) ! (k mod length (p # ps))
       # completion ks (splice1 (k mod length (p # ps)) (p # ps))"
  by pat_completeness auto
termination
  by (relation "measure (\<lambda>(ks, ps). length ps)") (auto simp: splice1_def)

text \<open>
  The settled renames, in the order they settle, threaded through the files present,
  the array \<open>photoReferences\<close> and the first rejection (the one \<open>Promise.all\<close>
  rejects with). A rename that succeeds is followed by
  \<open>photoReferences.push(`/uploads/${uniqueFileName}`)\<close>. The operations were all
  started before the first one settled, so the ones after a rejection still take
  effect on the disk.
\<close>

fun settle ::
  "(string \<times> string) list \<Rightarrow> string list \<Rightarrow> string list \<Rightarrow> string option
     \<Rightarrow> string option \<times> string list \<times> string list" where
  "settle [] fs photoReferences rejected = (rejected, photoReferences, fs)"
| "settle ((src, uniqueName) # ops) fs photoReferences rejected =
     (case rename src (filePath uniqueName) fs of
        None \<Rightarrow>
          settle ops fs photoReferences
            (case rejected of None \<Rightarrow> Some src | Some r \<Rightarrow> Some r)
      | Some fs' \<Rightarrow>
          settle ops fs' (photoReferences @ [''/uploads/'' @ uniqueName]) rejected)"

text \<open>
  The attachment step of \<open>createJournalEntryInFile\<close> (the \<open>await Promise.all\<close>):
  the first rejection if there is one, the array \<open>photoReferences\<close>, and the files
  present afterwards.
\<close>

definition storePhotos ::
  "nat list \<Rightarrow> (nat \<Rightarrow> nat) \<Rightarrow> upload list \<Rightarrow> string list
     \<Rightarrow> string option \<times> string list \<times> string list" where
  "storePhotos sched clock fls fs =
     settle (completion sched (callbacks clock fls)) fs [] None"

text \<open>\<open>color || "blue"\<close>: \<open>undefined\<close> and the empty string are falsy.\<close>

definition or_blue :: "string option \<Rightarrow> string" where
  "or_blue c = (case c of None \<Rightarrow> ''blue'' | Some x \<Rightarrow> if x = [] then ''blue'' else x)"

text \<open>
  The fields of the multipart body (\<open>None\<close>: the part is missing, so the destructured
  variable is \<open>undefined\<close>) and the uploaded files.
\<close>

record create_request =
  r_date :: "string option"
  r_title :: "string option"
  r_time :: "string option"
  r_text :: "string option"
  r_color :: "string option"
  r_files :: "upload list"

text \<open>
  \<open>createJournalEntryInFile(date, title, time, text, color, photoFiles)\<close>, the six
  arguments passed as the request record. It reads the collection first, then stores
  the photos, then appends and writes; every throw is rethrown to the caller.
\<close>

definition createJournalEntryInFile ::
  "nat list \<Rightarrow> (nat \<Rightarrow> nat) \<Rightarrow> store \<Rightarrow> create_request \<Rightarrow> (error + unit) \<times> store" where
  "createJournalEntryInFile sched clock s r =
     (case getAllJournalEntriesFromFile s of
        Inl e \<Rightarrow> (Inl e, s)
      | Inr existingEntries \<Rightarrow>
          (case storePhotos sched clock (r_files r) (files s) of
             (Some src, refs, fs') \<Rightarrow> (Inl (RenameFailed src), s\<lparr>files := fs'\<rparr>)
           | (None, photoReferences, fs') \<Rightarrow>
               let newEntry =
                 \<lparr>date = r_date r, title = r_title r, time = r_time r, text' = r_text r,
                  color = or_blue (r_color r), photos = photoReferences\<rparr>
               in (Inr (), writeFile (existingEntries @ [newEntry]) (s\<lparr>files := fs'\<rparr>))))"

definition post_journal ::
  "nat list \<Rightarrow> (nat \<Rightarrow> nat) \<Rightarrow> store \<Rightarrow> create_request \<Rightarrow> response \<times> store" where
  "post_journal sched clock s r =
     (case createJournalEntryInFile sched clock s r of
        (Inl e, s') \<Rightarrow> (Response 500 (ErrorBody ''Failed to create journal entry''), s')
      | (Inr u, s') \<Rightarrow> (Response 200 SuccessTrue, s'))"

section \<open>The client (view projections)\<close>

subsection \<open>Dates\<close>

text \<open>
  A JavaScript \<open>Date\<close> is its time value: milliseconds since the epoch, or NaN
  (an Invalid Date), here \<open>None\<close>.
\<close>

type_synonym time_value = "int option"

definition digit :: "char \<Rightarrow> nat option" where
  "digit c =
     (if 48 \<le> (of_char c :: nat) \<and> (of_char c :: nat) \<le> 57
      then Some (of_char c - 48) else None)"

text \<open>The value of a text of decimal digits, \<open>None\<close> when a character is not a digit.\<close>

fun digits :: "nat \<Rightarrow> string \<Rightarrow> nat option" where
  "digits acc [] = Some acc"
| "digits acc (c # cs) =
     (case digit c of None \<Rightarrow> None | Some d \<Rightarrow> digits (10 * acc + d) cs)"

text \<open>The three numbers of a text of the shape \<open>YYYY-MM-DD\<close>.\<close>

definition ymd :: "string \<Rightarrow> (nat \<times> nat \<times> nat) option" where
  "ymd s =
     (if length s = 10 \<and> s ! 4 = CHR ''-'' \<and> s ! 7 = CHR ''-''
      then (case (digits 0 (take 4 s), digits 0 (take 2 (drop 5 s)), digits 0 (drop 8 s)) of
              (Some y, Some m, Some d) \<Rightarrow> Some (y, m, d)
            | _ \<Rightarrow> None)
      else None)"

definition is_leap :: "nat \<Rightarrow> bool" where
  "is_leap y = (if y mod 100 = 0 then y mod 400 = 0 else y mod 4 = 0)"

definition days_in_month :: "nat \<Rightarrow> nat \<Rightarrow> nat" where
  "days_in_month y m =
     (if m = 2 then (if is_leap y then 29 else 28)
      else if m = 4 \<or> m = 6 \<or> m = 9 \<or> m = 11 then 30 else 31)"

text \<open>The number of days from 1970-01-01 to the given day of the Gregorian calendar.\<close>

definition days_from_civil :: "nat \<Rightarrow> nat \<Rightarrow> nat \<Rightarrow> int" where
  "days_from_civil y m d =
     (let y' = (if m \<le> 2 then int y - 1 else int y);
          era = y' div 400;
          yoe = y' - era * 400;
          doy = (153 * (if m > 2 then int m - 3 else int m + 9) + 2) div 5 + int d - 1;
          doe = yoe * 365 + yoe div 4 - yoe div 100 + doy
      in era * 146097 + doe - 719468)"

definition msPerDay :: int where
  "msPerDay = 86400000"

text \<open>
  \<open>new Date(e.date)\<close>. ECMAScript reads a date-only text \<open>YYYY-MM-DD\<close> as midnight
  UTC of that day. The model covers the texts that name a day of the calendar; for
  every other argument (\<open>undefined\<close> included) it gives NaN, which is what the
  language prescribes for \<open>undefined\<close> and leaves to the engine for other texts.
\<close>

definition newDate :: "string option \<Rightarrow> time_value" where
  "newDate x =
     (case x of
        None \<Rightarrow> None
      | Some s \<Rightarrow>
          (case ymd s of
             None \<Rightarrow> None
           | Some (y, m, d) \<Rightarrow>
               if 1 \<le> m \<and> m \<le> 12 \<and> 1 \<le> d \<and> d \<le> days_in_month y m
               then Some (days_from_civil y m d * msPerDay)
               else None))"

text \<open>
  \<open>d.setHours(0, 0, 0, 0)\<close>: midnight, in local time, of the local day the instant
  falls on. \<open>offset\<close> is local time minus UTC in minutes (\<open>-240\<close> for UTC-4); NaN
  stays NaN.
\<close>

definition setHours0 :: "int \<Rightarrow> time_value \<Rightarrow> time_value" where
  "setHours0 offset t =
     (case t of
        None \<Rightarrow> None
      | Some ms \<Rightarrow> Some ((ms + offset * 60000) div msPerDay * msPerDay - offset * 60000))"

subsection \<open>Memories and reminders (App)\<close>

text \<open>
  \<open>today\<close> is \<open>new Date()\<close> (the instant \<open>now\<close>) after \<open>setHours(0, 0, 0, 0)\<close>.
  A comparison with NaN is false, so an entry whose date is an Invalid Date passes
  neither filter.
\<close>

definition today :: "int \<Rightarrow> int \<Rightarrow> time_value" where
  "today offset now = setHours0 offset (Some now)"

definition is_memory :: "int \<Rightarrow> int \<Rightarrow> 'a entry_scheme \<Rightarrow> bool" where
  "is_memory offset now e =
     (case (setHours0 offset (newDate (date e)), today offset now) of
        (Some d, Some t) \<Rightarrow> d < t
      | _ \<Rightarrow> False)"

definition is_reminder :: "int \<Rightarrow> int \<Rightarrow> 'a entry_scheme \<Rightarrow> bool" where
  "is_reminder offset now e =
     (case (setHours0 offset (newDate (date e)), today offset now) of
        (Some d, Some t) \<Rightarrow> d \<ge> t
      | _ \<Rightarrow> False)"

definition memories :: "int \<Rightarrow> int \<Rightarrow> 'a entry_scheme list \<Rightarrow> 'a entry_scheme list" where
  "memories offset now calendarEntries = filter (is_memory offset now) calendarEntries"

definition reminders :: "int \<Rightarrow> int \<Rightarrow> 'a entry_scheme list \<Rightarrow> 'a entry_scheme list" where
  "reminders offset now calendarEntries = filter (is_reminder offset now) calendarEntries"

subsection \<open>Forecast aggregation (lib/api/weather)\<close>

text \<open>
  One element of \<open>data.list\<close>, reduced to what the loop reads: \<open>item.dt_txt\<close>,
  \<open>item.main.temp\<close>, \<open>item.weather[0].main\<close> and \<open>item.weather[0].icon\<close>.
\<close>

record sample =
  dt_txt :: string
  temp :: real
  weather_main :: string
  weather_icon :: string

text \<open>\<open>WeatherSummary\<close> of types.ts; its field \<open>date\<close> is written \<open>date'\<close>.\<close>

record WeatherSummary =
  date' :: string
  tempMin :: real
  tempMax :: real
  weather :: string
  icon :: string

text \<open>\<open>item.dt_txt.split(' ')[0]\<close>: the text before the first space.\<close>

definition date_part :: "string \<Rightarrow> string" where
  "date_part s = takeWhile (\<lambda>c. c \<noteq> CHR '' '') s"

text \<open>
  \<open>dailyMap\<close> is an object used as a dictionary; it is modelled by the list of its
  own properties in insertion order, which is the order \<open>Object.values\<close> follows for
  keys that are not array indices. The keys the loop is written for are dates
  \<open>"YYYY-MM-DD"\<close>; they are neither array indices nor names inherited from
  \<open>Object.prototype\<close>, so \<open>!dailyMap[date]\<close> is true exactly when the key is new.
\<close>

type_synonym dailyMap = "(string \<times> WeatherSummary) list"

definition assign :: "string \<Rightarrow> WeatherSummary \<Rightarrow> dailyMap \<Rightarrow> dailyMap" where
  "assign k w m = map (\<lambda>(k', w'). if k' = k then (k', w) else (k', w')) m"

text \<open>The body of the \<open>forEach\<close>.\<close>

definition add_sample :: "sample \<Rightarrow> dailyMap \<Rightarrow> dailyMap" where
  "add_sample item m =
     (let d = date_part (dt_txt item) in
      case map_of m d of
        None \<Rightarrow>
          m @ [(d, \<lparr>date' = d, tempMin = temp item, tempMax = temp item,
                    weather = weather_main item, icon = weather_icon item\<rparr>)]
      | Some w \<Rightarrow>
          assign d (w\<lparr>tempMin := min (tempMin w) (temp item),
                      tempMax := max (tempMax w) (temp item)\<rparr>) m)"

text \<open>\<open>Object.values(dailyMap).slice(0, 5)\<close> after the loop over \<open>data.list\<close>.\<close>

definition aggregate :: "sample list \<Rightarrow> WeatherSummary list" where
  "aggregate list = take 5 (map snd (fold add_sample list []))"

text \<open>
  What the aggregation is meant to compute, written independently of the loop. The
  dates in the order of their first occurrence:
\<close>

fun first_seen :: "'a list \<Rightarrow> 'a list" where
  "first_seen [] = []"
| "first_seen (x # xs) = x # first_seen (filter (\<lambda>y. y \<noteq> x) xs)"

text \<open>the samples of one date, in input order:\<close>

definition samples_of :: "string \<Rightarrow> sample list \<Rightarrow> sample list" where
  "samples_of d list = filter (\<lambda>item. date_part (dt_txt item) = d) list"

text \<open>
  and the summary of one date: the least and the greatest temperature over its samples,
  the condition and the icon of its first sample.
\<close>

definition day_summary :: "sample list \<Rightarrow> string \<Rightarrow> WeatherSummary" where
  "day_summary list d =
     \<lparr>date' = d,
      tempMin = Min (set (map temp (samples_of d list))),
      tempMax = Max (set (map temp (samples_of d list))),
      weather = weather_main (hd (samples_of d list)),
      icon = weather_icon (hd (samples_of d list))\<rparr>"

text \<open>
  The samples of the provider: every \<open>dt_txt\<close> starts with a date \<open>YYYY-MM-DD\<close>
  (the source's comment on \<open>date\<close>), which is the domain on which the list of pairs
  stands for the object \<open>dailyMap\<close>.
\<close>

definition date_keyed :: "sample list \<Rightarrow> bool" where
  "date_keyed list = list_all (\<lambda>item. ymd (date_part (dt_txt item)) \<noteq> None) list"

datatype fetch_error = MissingApiKey | FetchFailed

text \<open>
  The answer of the provider: a status that is not ok, or a JSON body with or without
  a \<open>list\<close>.
\<close>

datatype forecast_response = NotOk | Json "sample list option"

definition fetchFiveDayForecast ::
  "string option \<Rightarrow> forecast_response \<Rightarrow> fetch_error + WeatherSummary list" where
  "fetchFiveDayForecast key res =
     (if key = None \<or> key = Some [] then Inl MissingApiKey
      else case res of
             NotOk \<Rightarrow> Inl FetchFailed
           | Json None \<Rightarrow> Inr []
           | Json (Some list) \<Rightarrow> Inr (aggregate list))"

subsection \<open>Note colours\<close>

text \<open>The table \<open>NOTE_COLORS\<close> of lib/noteColors: per colour, the classes and the hex.\<close>

definition NOTE_COLORS :: "(string \<times> string \<times> string) list" where
  "NOTE_COLORS =
     [(''red'', ''bg-red-100 border-red-200 text-red-900'', ''#ef4444''),
      (''orange'', ''bg-orange-100 border-orange-200 text-orange-900'', ''#f97316''),
      (''yellow'', ''bg-yellow-100 border-yellow-200 text-yellow-900'', ''#eab308''),
      (''green'', ''bg-green-100 border-green-200 text-green-900'', ''#22c55e''),
      (''blue'', ''bg-blue-100 border-blue-200 text-blue-900'', ''#3b82f6''),
      (''purple'', ''bg-purple-100 border-purple-200 text-purple-900'', ''#a855f7''),
      (''pink'', ''bg-pink-100 border-pink-200 text-pink-900'', ''#ec4899''),
      (''gray'', ''bg-gray-100 border-gray-200 text-gray-900'', ''#9ca3af'')]"

definition DEFAULT_COLOR :: string where
  "DEFAULT_COLOR = ''blue''"

definition NOTE_COLOR_OPTIONS :: "string list" where
  "NOTE_COLOR_OPTIONS =
     [''red'', ''orange'', ''yellow'', ''green'', ''blue'', ''purple'', ''pink'', ''gray'']"

text \<open>
  \<open>getNoteColorConfig(color?: NoteColor)\<close> is \<open>NOTE_COLORS[color ?? DEFAULT_COLOR]\<close>.
  The parameter type admits the eight colours and \<open>undefined\<close>; at run time the
  argument is whatever string the entry carries (the callers cast with
  \<open>as NoteColor\<close>), so the model takes any string. \<open>None\<close> as a result means that
  the table has no such colour.
\<close>

definition getNoteColorConfig :: "string option \<Rightarrow> (string \<times> string) option" where
  "getNoteColorConfig c =
     map_of NOTE_COLORS (case c of None \<Rightarrow> DEFAULT_COLOR | Some x \<Rightarrow> x)"

text \<open>
  \<open>noteBg\<close> of lib/noteColors: \<open>getNoteColorConfig(color).classes\<close>. Without a table
  entry no class string comes out: reading \<open>.classes\<close> of \<open>undefined\<close> throws a
  TypeError (and for a name inherited from \<open>Object.prototype\<close> the property read
  gives \<open>undefined\<close>). Both are \<open>None\<close>.
\<close>

definition noteBg :: "string option \<Rightarrow> string option" where
  "noteBg c = map_option fst (getNoteColorConfig c)"

text \<open>The local \<open>noteBg\<close> of MonthlyCalendar: a \<open>switch\<close> with a default.\<close>

definition noteBg_MonthlyCalendar :: "string \<Rightarrow> string" where
  "noteBg_MonthlyCalendar c =
     (if c = ''red'' then ''bg-red-100 border-red-200 text-red-900''
      else if c = ''orange'' then ''bg-orange-100 border-orange-200 text-orange-900''
      else if c = ''yellow'' then ''bg-yellow-100 border-yellow-200 text-yellow-900''
      else if c = ''green'' then ''bg-green-100 border-green-200 text-green-900''
      else if c = ''blue'' then ''bg-blue-100 border-blue-200 text-blue-900''
      else if c = ''purple'' then ''bg-purple-100 border-purple-200 text-purple-900''
      else if c = ''pink'' then ''bg-pink-100 border-pink-200 text-pink-900''
      else if c = ''gray'' then ''bg-gray-100 border-gray-200 text-gray-900''
      else ''bg-blue-100 border-blue-200 text-blue-900'')"

text \<open>Its one call: \<open>noteBg(entry.color ?? 'blue')\<close>.\<close>

definition cell_noteBg :: "string option \<Rightarrow> string" where
  "cell_noteBg c = noteBg_MonthlyCalendar (case c of None \<Rightarrow> ''blue'' | Some x \<Rightarrow> x)"

section \<open>Example values\<close>

text \<open>Concrete stores, requests and samples at which the theorems below are instantiated.\<close>

definition entry_A :: entry where
  "entry_A = \<lparr>date = Some ''2025-06-15'', title = Some ''A'', time = Some ''09:30'',
     text' = Some ''note'', color = ''green'', photos = [''/uploads/1-p.png'']\<rparr>"

definition entry_B :: entry where
  "entry_B = \<lparr>date = Some ''2025-06-14'', title = Some ''B'', time = None,
     text' = None, color = ''red'', photos = []\<rparr>"

definition store_A :: store where
  "store_A = \<lparr>journal_data = Some (JsonArray [entry_A, entry_B]),
     files = [''uploads/t1'', ''uploads/t2'']\<rparr>"

definition photo_a :: upload where
  "photo_a = \<lparr>originalname = ''a.png'', path = ''uploads/t1''\<rparr>"

definition photo_b :: upload where
  "photo_b = \<lparr>originalname = ''b.png'', path = ''uploads/t2''\<rparr>"

text \<open>An upload whose temporary file is not on the disk of \<open>store_A\<close>.\<close>

definition photo_lost :: upload where
  "photo_lost = \<lparr>originalname = ''c.png'', path = ''uploads/t9''\<rparr>"

definition request_A :: create_request where
  "request_A = \<lparr>r_date = Some ''2025-06-16'', r_title = Some ''C'', r_time = None,
     r_text = None, r_color = None, r_files = [photo_a, photo_b]\<rparr>"

definition entry_today :: entry where
  "entry_today = \<lparr>date = Some ''2025-06-15'', title = Some ''Dentist'', time = None,
     text' = None, color = ''blue'', photos = []\<rparr>"

definition entry_tomorrow :: entry where
  "entry_tomorrow = \<lparr>date = Some ''2025-06-16'', title = Some ''Trip'', time = None,
     text' = None, color = ''blue'', photos = []\<rparr>"

definition samples_A :: "sample list" where
  "samples_A =
     [\<lparr>dt_txt = ''2025-06-15 00:00:00'', temp = 18, weather_main = ''Rain'',
        weather_icon = ''10d''\<rparr>,
      \<lparr>dt_txt = ''2025-06-16 00:00:00'', temp = 9, weather_main = ''Clear'',
        weather_icon = ''01d''\<rparr>,
      \<lparr>dt_txt = ''2025-06-15 03:00:00'', temp = 22, weather_main = ''Clouds'',
        weather_icon = ''03d''\<rparr>,
      \<lparr>dt_txt = ''2025-06-15 06:00:00'', temp = 15, weather_main = ''Clear'',
        weather_icon = ''01d''\<rparr>]"

section \<open>Auxiliary facts\<close>

lemma decimal_5: "decimal 5 = ''5''"
  by (simp add: decimal.simps)

lemmas eval_defs =
  createJournalEntryInFile_def post_journal_def getAllJournalEntriesFromFile_def
  storePhotos_def callbacks_def uniqueFileName_def filePath_def rename_def splice1_def
  writeFile_def or_blue_def decimal_5
  entry_A_def entry_B_def store_A_def photo_a_def photo_b_def photo_lost_def request_A_def

lemmas date_defs =
  memories_def reminders_def is_memory_def is_reminder_def today_def setHours0_def newDate_def
  ymd_def digit_def days_in_month_def is_leap_def days_from_civil_def msPerDay_def

subsection \<open>Schedules and settled renames\<close>

lemma nth_splice1_mset:
  assumes "i < length xs"
  shows "add_mset (xs ! i) (mset (splice1 i xs)) = mset xs"
proof -
  from assms have "xs = take i xs @ xs ! i # drop (Suc i) xs"
    by (rule id_take_nth_drop)
  then have "mset xs = mset (take i xs @ xs ! i # drop (Suc i) xs)" by simp
  then show ?thesis by (simp add: splice1_def)
qed

text \<open>A schedule only reorders the pending operations.\<close>

lemma mset_completion: "mset (completion ks ps) = mset ps"
proof (induction ks ps rule: completion.induct)
  case (3 k ks p ps)
  have "k mod length (p # ps) < length (p # ps)" by simp
  from nth_splice1_mset [OF this] "3.IH" show ?case by simp
qed simp_all

lemma settle_rejected_stays: "fst (settle ops fs refs (Some r)) = Some r"
  by (induction ops arbitrary: fs refs) (auto split: option.splits)

text \<open>Without a rejection every operation has pushed its reference.\<close>

lemma settle_none:
  "settle ops fs refs rej = (None, refs', fs') \<Longrightarrow>
     rej = None \<and> refs' = refs @ map (\<lambda>(src, n). ''/uploads/'' @ n) ops"
proof (induction ops arbitrary: fs refs rej)
  case Nil
  then show ?case by simp
next
  case (Cons op ops)
  obtain src n where op: "op = (src, n)" by (cases op)
  show ?case
  proof (cases "rename src (filePath n) fs")
    case None
    with Cons.prems op have
      "settle ops fs refs (case rej of None \<Rightarrow> Some src | Some r \<Rightarrow> Some r)
         = (None, refs', fs')"
      by simp
    moreover have
      "fst (settle ops fs refs (case rej of None \<Rightarrow> Some src | Some r \<Rightarrow> Some r)) \<noteq> None"
      by (cases rej) (simp_all add: settle_rejected_stays)
    ultimately show ?thesis by simp
  next
    case (Some fs1)
    with Cons.prems op have
      "settle ops fs1 (refs @ [''/uploads/'' @ n]) rej = (None, refs', fs')"
      by simp
    from Cons.IH [OF this] op show ?thesis by simp
  qed
qed

lemma storePhotos_all_stored:
  assumes "storePhotos sched clock fls fs = (None, refs, fs')"
  shows "mset refs =
    mset (map (\<lambda>(i, file). ''/uploads/'' @ uniqueFileName (clock i) file) (enumerate 0 fls))"
proof -
  from assms have
    "refs = map (\<lambda>(src, n). ''/uploads/'' @ n) (completion sched (callbacks clock fls))"
    unfolding storePhotos_def by (auto dest: settle_none)
  then have "mset refs =
      image_mset (\<lambda>(src, n). ''/uploads/'' @ n) (mset (completion sched (callbacks clock fls)))"
    by simp
  also have "\<dots> = image_mset (\<lambda>(src, n). ''/uploads/'' @ n) (mset (callbacks clock fls))"
    by (simp only: mset_completion)
  also have "\<dots> =
      mset (map (\<lambda>(i, file). ''/uploads/'' @ uniqueFileName (clock i) file) (enumerate 0 fls))"
    by (simp add: callbacks_def case_prod_unfold comp_def multiset.map_comp)
  finally show ?thesis .
qed

text \<open>With the empty schedule the operations settle in input order.\<close>

lemma completion_in_order: "completion [] ps = ps"
  by (cases ps) simp_all

lemma storePhotos_in_order:
  assumes "storePhotos [] clock fls fs = (None, refs, fs')"
  shows "refs =
    map (\<lambda>(i, file). ''/uploads/'' @ uniqueFileName (clock i) file) (enumerate 0 fls)"
proof -
  from assms have "refs = map (\<lambda>(src, n). ''/uploads/'' @ n) (callbacks clock fls)"
    unfolding storePhotos_def by (auto simp: completion_in_order dest: settle_none)
  then show ?thesis by (simp add: callbacks_def case_prod_unfold comp_def)
qed

subsection \<open>The three ways out of createJournalEntryInFile\<close>

lemma create_unreadable:
  "getAllJournalEntriesFromFile s = Inl e \<Longrightarrow>
     createJournalEntryInFile sched clock s r = (Inl e, s)"
  by (simp add: createJournalEntryInFile_def)

lemma create_rejected:
  "getAllJournalEntriesFromFile s = Inr es \<Longrightarrow>
   storePhotos sched clock (r_files r) (files s) = (Some src, refs, fs') \<Longrightarrow>
     createJournalEntryInFile sched clock s r = (Inl (RenameFailed src), s\<lparr>files := fs'\<rparr>)"
  by (simp add: createJournalEntryInFile_def)

lemma create_stored:
  "getAllJournalEntriesFromFile s = Inr es \<Longrightarrow>
   storePhotos sched clock (r_files r) (files s) = (None, refs, fs') \<Longrightarrow>
     createJournalEntryInFile sched clock s r =
       (Inr (), \<lparr>journal_data = Some (JsonArray (es @
          [\<lparr>date = r_date r, title = r_title r, time = r_time r, text' = r_text r,
            color = or_blue (r_color r), photos = refs\<rparr>])), files = fs'\<rparr>)"
  by (simp add: createJournalEntryInFile_def writeFile_def)

subsection \<open>Local midnight of a UTC midnight\<close>

text \<open>
  \<open>setHours(0, 0, 0, 0)\<close> applied to midnight UTC of day \<open>D\<close>: east of UTC (and at
  UTC) the local day is \<open>D\<close>, west of UTC it is the day before.
\<close>

lemma local_day_east:
  assumes "0 \<le> offset" and "offset < 1440"
  shows "setHours0 offset (Some (D * msPerDay)) = Some (D * msPerDay - offset * 60000)"
proof -
  have "(D * 86400000 + offset * 60000) div 86400000 = D"
    using assms by (simp add: div_pos_pos_trivial)
  then show ?thesis by (simp add: setHours0_def msPerDay_def)
qed

lemma local_day_west:
  assumes "-1440 \<le> offset" and "offset < 0"
  shows "setHours0 offset (Some (D * msPerDay)) =
           Some ((D - 1) * msPerDay - offset * 60000)"
proof -
  have "D * 86400000 + offset * 60000 = (D - 1) * 86400000 + (86400000 + offset * 60000)"
    by (simp add: algebra_simps)
  moreover have "((D - 1) * 86400000 + (86400000 + offset * 60000)) div 86400000 = D - 1"
    using assms by (simp add: div_pos_pos_trivial)
  ultimately have "(D * 86400000 + offset * 60000) div 86400000 = D - 1" by simp
  then show ?thesis by (simp add: setHours0_def msPerDay_def)
qed

subsection \<open>The aggregation loop\<close>

lemma set_first_seen: "set (first_seen xs) = set xs"
  by (induction xs rule: first_seen.induct) auto

lemma distinct_first_seen: "distinct (first_seen xs)"
  by (induction xs rule: first_seen.induct) (auto simp: set_first_seen)

lemma first_seen_snoc:
  "first_seen (xs @ [y]) = (if y \<in> set xs then first_seen xs else first_seen xs @ [y])"
  by (induction xs rule: first_seen.induct) auto

lemma map_of_tabulated:
  "map_of (map (\<lambda>k. (k, f k)) ks) k = (if k \<in> set ks then Some (f k) else None)"
  by (induction ks) auto

lemma assign_tabulated:
  "assign d w (map (\<lambda>k. (k, f k)) ks) = map (\<lambda>k. (k, if k = d then w else f k)) ks"
  by (simp add: assign_def)

lemma samples_of_snoc:
  "samples_of k (xs @ [x]) =
     (if date_part (dt_txt x) = k then samples_of k xs @ [x] else samples_of k xs)"
  by (simp add: samples_of_def)

lemma samples_of_empty:
  "samples_of k xs = [] \<longleftrightarrow> k \<notin> set (map (\<lambda>item. date_part (dt_txt item)) xs)"
  by (auto simp: samples_of_def filter_empty_conv)

lemma day_summary_other:
  "date_part (dt_txt x) \<noteq> k \<Longrightarrow> day_summary (xs @ [x]) k = day_summary xs k"
  by (simp add: day_summary_def samples_of_snoc)

lemma day_summary_new:
  "samples_of (date_part (dt_txt x)) xs = [] \<Longrightarrow>
     day_summary (xs @ [x]) (date_part (dt_txt x)) =
       \<lparr>date' = date_part (dt_txt x), tempMin = temp x, tempMax = temp x,
        weather = weather_main x, icon = weather_icon x\<rparr>"
  by (simp add: day_summary_def samples_of_snoc)

lemma day_summary_again:
  assumes "samples_of (date_part (dt_txt x)) xs \<noteq> []"
  shows "day_summary (xs @ [x]) (date_part (dt_txt x)) =
       (day_summary xs (date_part (dt_txt x)))
         \<lparr>tempMin := min (tempMin (day_summary xs (date_part (dt_txt x)))) (temp x),
          tempMax := max (tempMax (day_summary xs (date_part (dt_txt x)))) (temp x)\<rparr>"
proof -
  let ?g = "samples_of (date_part (dt_txt x)) xs"
  have ne: "set (map temp ?g) \<noteq> {}" using assms by simp
  have "Min (set (map temp (?g @ [x]))) = min (Min (set (map temp ?g))) (temp x)"
    using ne by (simp add: min.commute)
  moreover have "Max (set (map temp (?g @ [x]))) = max (Max (set (map temp ?g))) (temp x)"
    using ne by (simp add: max.commute)
  moreover have "hd (?g @ [x]) = hd ?g" using assms by simp
  ultimately show ?thesis by (simp add: day_summary_def samples_of_snoc)
qed

text \<open>
  The invariant of the \<open>forEach\<close>: after the samples \<open>xs\<close>, \<open>dailyMap\<close> holds the
  dates seen so far in the order of their first occurrence, each with the summary of
  its samples.
\<close>

lemma fold_add_sample:
  "fold add_sample xs [] =
     map (\<lambda>d. (d, day_summary xs d)) (first_seen (map (\<lambda>item. date_part (dt_txt item)) xs))"
proof (induction xs rule: rev_induct)
  case Nil
  show ?case by simp
next
  case (snoc x xs)
  let ?key = "\<lambda>item. date_part (dt_txt item)"
  let ?ds = "first_seen (map ?key xs)"
  let ?d = "?key x"
  have step: "fold add_sample (xs @ [x]) [] =
      add_sample x (map (\<lambda>d. (d, day_summary xs d)) ?ds)"
    using snoc.IH by simp
  show ?case
  proof (cases "?d \<in> set (map ?key xs)")
    case False
    then have empty: "samples_of ?d xs = []" by (simp add: samples_of_empty)
    have lookup: "map_of (map (\<lambda>d. (d, day_summary xs d)) ?ds) ?d = None"
      using False by (simp add: map_of_tabulated set_first_seen)
    have old: "map (\<lambda>d. (d, day_summary (xs @ [x]) d)) ?ds =
               map (\<lambda>d. (d, day_summary xs d)) ?ds"
    proof (rule map_cong [OF refl])
      fix k assume "k \<in> set ?ds"
      then have "?d \<noteq> k" using False by (auto simp: set_first_seen)
      then show "(k, day_summary (xs @ [x]) k) = (k, day_summary xs k)"
        by (simp add: day_summary_other)
    qed
    have "first_seen (map ?key (xs @ [x])) = ?ds @ [?d]"
      using False by (simp add: first_seen_snoc)
    then have
      "map (\<lambda>d. (d, day_summary (xs @ [x]) d)) (first_seen (map ?key (xs @ [x]))) =
         map (\<lambda>d. (d, day_summary xs d)) ?ds @ [(?d, day_summary (xs @ [x]) ?d)]"
      using old by simp
    also have "\<dots> = add_sample x (map (\<lambda>d. (d, day_summary xs d)) ?ds)"
      using lookup day_summary_new [OF empty] by (simp add: add_sample_def Let_def)
    finally show ?thesis using step by simp
  next
    case True
    then have nonempty: "samples_of ?d xs \<noteq> []" by (simp add: samples_of_empty)
    have lookup:
      "map_of (map (\<lambda>d. (d, day_summary xs d)) ?ds) ?d = Some (day_summary xs ?d)"
      using True by (simp add: map_of_tabulated set_first_seen)
    have same: "first_seen (map ?key (xs @ [x])) = ?ds"
      using True by (simp add: first_seen_snoc)
    have "map (\<lambda>d. (d, day_summary (xs @ [x]) d)) ?ds =
          map (\<lambda>k. (k, if k = ?d
                        then (day_summary xs ?d)
                               \<lparr>tempMin := min (tempMin (day_summary xs ?d)) (temp x),
                                tempMax := max (tempMax (day_summary xs ?d)) (temp x)\<rparr>
                        else day_summary xs k)) ?ds"
    proof (rule map_cong [OF refl])
      fix k assume "k \<in> set ?ds"
      show "(k, day_summary (xs @ [x]) k) =
            (k, if k = ?d
                then (day_summary xs ?d)
                       \<lparr>tempMin := min (tempMin (day_summary xs ?d)) (temp x),
                        tempMax := max (tempMax (day_summary xs ?d)) (temp x)\<rparr>
                else day_summary xs k)"
      proof (cases "k = ?d")
        case True
        then show ?thesis using day_summary_again [OF nonempty] by simp
      next
        case False
        then have "?d \<noteq> k" by simp
        then show ?thesis using False by (simp add: day_summary_other)
      qed
    qed
    also have "\<dots> = add_sample x (map (\<lambda>d. (d, day_summary xs d)) ?ds)"
      using lookup by (simp add: add_sample_def assign_tabulated Let_def)
    finally show ?thesis using step same by simp
  qed
qed

lemma aggregate_eq:
  "aggregate list =
     map (day_summary list) (take 5 (first_seen (map (\<lambda>item. date_part (dt_txt item)) list)))"
  by (simp add: aggregate_def fold_add_sample comp_def take_map)

section \<open>Out-of-range index\<close>

text \<open>
  C1. When the stored collection has length \<open>n\<close> and the index is negative or at least
  \<open>n\<close> (so also for \<open>index = n\<close> and \<open>index = -1\<close>), PUT and DELETE both answer 404
  "Entry not found" and return the store exactly as it was: nothing is written.
\<close>

theorem out_of_range_not_found:
  assumes "getAllJournalEntriesFromFile s = Inr es"
    and "i < 0 \<or> i \<ge> int (length es)"
  shows "put_entry s (Some i) b = (Response 404 (ErrorBody ''Entry not found''), s)
       \<and> delete_entry s (Some i) = (Response 404 (ErrorBody ''Entry not found''), s)"
  using assms by (simp add: put_entry_def delete_entry_def)

text \<open>On the two-entry store, at \<open>index = 2\<close> (the length) and at \<open>index = -1\<close>.\<close>

theorem out_of_range_not_found_witness:
  "getAllJournalEntriesFromFile store_A = Inr [entry_A, entry_B]
   \<and> ((2::int) < 0 \<or> 2 \<ge> int (length [entry_A, entry_B]))
   \<and> ((-1::int) < 0 \<or> -1 \<ge> int (length [entry_A, entry_B]))
   \<and> put_entry store_A (Some 2) \<lparr>b_title = Str ''X'', b_time = Undefined, b_text = Undefined\<rparr>
        = (Response 404 (ErrorBody ''Entry not found''), store_A)
   \<and> delete_entry store_A (Some 2) = (Response 404 (ErrorBody ''Entry not found''), store_A)
   \<and> put_entry store_A (Some (-1))
        \<lparr>b_title = Str ''X'', b_time = Undefined, b_text = Undefined\<rparr>
        = (Response 404 (ErrorBody ''Entry not found''), store_A)
   \<and> delete_entry store_A (Some (-1))
        = (Response 404 (ErrorBody ''Entry not found''), store_A)"
proof -
  have h: "getAllJournalEntriesFromFile store_A = Inr [entry_A, entry_B]"
    by (simp add: getAllJournalEntriesFromFile_def store_A_def)
  have at_n: "(2::int) < 0 \<or> 2 \<ge> int (length [entry_A, entry_B])" by simp
  have below: "(-1::int) < 0 \<or> -1 \<ge> int (length [entry_A, entry_B])" by simp
  from out_of_range_not_found [OF h at_n] out_of_range_not_found [OF h below] h
  show ?thesis by simp
qed

section \<open>Partial update\<close>

text \<open>
  C2. At a valid index PUT answers 200 with the merged entry and writes the collection
  with that entry replaced. In the merged entry each of title, time and text is the
  value of the body when the body has a string there (the empty string included) and
  the prior value when the field is absent (or \<open>null\<close>); date, color and photos are the
  prior ones; the collection keeps its length and every other entry.
\<close>

theorem update_merges_given_fields:
  assumes "getAllJournalEntriesFromFile s = Inr es"
    and "0 \<le> i" and "i < int (length es)"
  shows "put_entry s (Some i) b =
           (Response 200 (OneEntry (merge_entry b (es ! nat i))),
            s\<lparr>journal_data := Some (JsonArray (es[nat i := merge_entry b (es ! nat i)]))\<rparr>)
       \<and> title (merge_entry b (es ! nat i)) =
           (case b_title b of Str x \<Rightarrow> Some x | Null \<Rightarrow> title (es ! nat i)
            | Undefined \<Rightarrow> title (es ! nat i))
       \<and> time (merge_entry b (es ! nat i)) =
           (case b_time b of Str x \<Rightarrow> Some x | Null \<Rightarrow> time (es ! nat i)
            | Undefined \<Rightarrow> time (es ! nat i))
       \<and> text' (merge_entry b (es ! nat i)) =
           (case b_text b of Str x \<Rightarrow> Some x | Null \<Rightarrow> text' (es ! nat i)
            | Undefined \<Rightarrow> text' (es ! nat i))
       \<and> date (merge_entry b (es ! nat i)) = date (es ! nat i)
       \<and> color (merge_entry b (es ! nat i)) = color (es ! nat i)
       \<and> photos (merge_entry b (es ! nat i)) = photos (es ! nat i)
       \<and> length (es[nat i := merge_entry b (es ! nat i)]) = length es
       \<and> (\<forall>j < length es. j \<noteq> nat i \<longrightarrow>
             es[nat i := merge_entry b (es ! nat i)] ! j = es ! j)"
proof -
  have range: "nat i < length es" using assms(2,3) by simp
  have put: "put_entry s (Some i) b =
           (Response 200 (OneEntry (merge_entry b (es ! nat i))),
            s\<lparr>journal_data := Some (JsonArray (es[nat i := merge_entry b (es ! nat i)]))\<rparr>)"
    using assms range by (simp add: put_entry_def writeFile_def Let_def)
  have fields: "title (merge_entry b e) =
           (case b_title b of Str x \<Rightarrow> Some x | Null \<Rightarrow> title e | Undefined \<Rightarrow> title e)
       \<and> time (merge_entry b e) =
           (case b_time b of Str x \<Rightarrow> Some x | Null \<Rightarrow> time e | Undefined \<Rightarrow> time e)
       \<and> text' (merge_entry b e) =
           (case b_text b of Str x \<Rightarrow> Some x | Null \<Rightarrow> text' e | Undefined \<Rightarrow> text' e)"
    for e
    by (simp add: merge_entry_def split: body_field.split)
  have frame: "date (merge_entry b e) = date e \<and> color (merge_entry b e) = color e
       \<and> photos (merge_entry b e) = photos e" for e
    by (simp add: merge_entry_def)
  show ?thesis using put fields frame by simp
qed

text \<open>
  The body \<open>{title: "X", text: ""}\<close> at index 0: the title and the (empty) text are
  set, the time stays, the second entry stays.
\<close>

theorem update_merges_given_fields_witness:
  "getAllJournalEntriesFromFile store_A = Inr [entry_A, entry_B]
   \<and> (0::int) \<le> 0 \<and> (0::int) < int (length [entry_A, entry_B])
   \<and> put_entry store_A (Some 0) \<lparr>b_title = Str ''X'', b_time = Undefined, b_text = Str []\<rparr>
       = (Response 200 (OneEntry
            \<lparr>date = Some ''2025-06-15'', title = Some ''X'', time = Some ''09:30'',
              text' = Some [], color = ''green'', photos = [''/uploads/1-p.png'']\<rparr>),
          \<lparr>journal_data = Some (JsonArray
            [\<lparr>date = Some ''2025-06-15'', title = Some ''X'', time = Some ''09:30'',
              text' = Some [], color = ''green'', photos = [''/uploads/1-p.png'']\<rparr>,
             entry_B]),
           files = [''uploads/t1'', ''uploads/t2'']\<rparr>)"
proof -
  have h: "getAllJournalEntriesFromFile store_A = Inr [entry_A, entry_B]"
    by (simp add: getAllJournalEntriesFromFile_def store_A_def)
  have lo: "(0::int) \<le> 0" by simp
  have hi: "(0::int) < int (length [entry_A, entry_B])" by simp
  from update_merges_given_fields
         [OF h lo hi, of "\<lparr>b_title = Str ''X'', b_time = Undefined, b_text = Str []\<rparr>"] h
  show ?thesis by (simp add: merge_entry_def entry_A_def store_A_def)
qed

section \<open>Photo references and the order of completion\<close>

text \<open>
  C3. The references are pushed onto \<open>photoReferences\<close> as the renames settle, so
  their order is the order of completion, not the order of upload. With two photos
  \<open>a.png\<close>, \<open>b.png\<close> uploaded in this order and the rename of \<open>b.png\<close> settling
  first (schedule \<open>[1]\<close>), the attachment step yields the reference of \<open>b.png\<close> before
  that of \<open>a.png\<close>, and the created entry lists them so.
\<close>

theorem photo_order_follows_completion:
  "storePhotos [1] (\<lambda>i. 5) [photo_a, photo_b] (files store_A) =
     (None, [''/uploads/5-b.png'', ''/uploads/5-a.png''],
      [''uploads/5-a.png'', ''uploads/5-b.png''])
   \<and> createJournalEntryInFile [1] (\<lambda>i. 5) store_A request_A =
     (Inr (), \<lparr>journal_data = Some (JsonArray [entry_A, entry_B,
         \<lparr>date = Some ''2025-06-16'', title = Some ''C'', time = None, text' = None,
           color = ''blue'', photos = [''/uploads/5-b.png'', ''/uploads/5-a.png'']\<rparr>]),
        files = [''uploads/5-a.png'', ''uploads/5-b.png'']\<rparr>)"
  by (simp add: eval_defs)

section \<open>Append only after the photos are stored\<close>

text \<open>
  C4. Whatever the order in which the renames settle: if one of them is rejected,
  \<open>createJournalEntryInFile\<close> throws and \<open>journal_data.txt\<close> is what it was; and if it
  returns normally, no rename was rejected, the new entry carries one reference for
  each uploaded file, and the collection written is the one read with the new entry
  appended.
\<close>

theorem entry_appended_only_after_photos_stored:
  "(fst (storePhotos sched clock (r_files r) (files s)) \<noteq> None \<longrightarrow>
      (\<exists>e. fst (createJournalEntryInFile sched clock s r) = Inl e)
      \<and> journal_data (snd (createJournalEntryInFile sched clock s r)) = journal_data s)
   \<and> (fst (createJournalEntryInFile sched clock s r) = Inr () \<longrightarrow>
      fst (storePhotos sched clock (r_files r) (files s)) = None
      \<and> mset (fst (snd (storePhotos sched clock (r_files r) (files s)))) =
          mset (map (\<lambda>(i, file). ''/uploads/'' @ uniqueFileName (clock i) file)
                 (enumerate 0 (r_files r)))
      \<and> (\<exists>es. getAllJournalEntriesFromFile s = Inr es
           \<and> journal_data (snd (createJournalEntryInFile sched clock s r)) =
               Some (JsonArray (es @
                 [\<lparr>date = r_date r, title = r_title r, time = r_time r, text' = r_text r,
                   color = or_blue (r_color r),
                   photos = fst (snd (storePhotos sched clock (r_files r) (files s)))\<rparr>]))))"
proof -
  obtain rej refs fs' where sp:
    "storePhotos sched clock (r_files r) (files s) = (rej, refs, fs')"
    by (cases "storePhotos sched clock (r_files r) (files s)") auto
  show ?thesis
  proof (cases "getAllJournalEntriesFromFile s")
    case (Inl e)
    from create_unreadable [OF Inl] show ?thesis by simp
  next
    case (Inr es)
    show ?thesis
    proof (cases rej)
      case None
      with sp have sp': "storePhotos sched clock (r_files r) (files s) = (None, refs, fs')"
        by simp
      from create_stored [OF Inr sp'] storePhotos_all_stored [OF sp'] sp' Inr
      show ?thesis by simp
    next
      case (Some src)
      with sp have sp':
        "storePhotos sched clock (r_files r) (files s) = (Some src, refs, fs')"
        by simp
      from create_rejected [OF Inr sp'] sp' show ?thesis by simp
    qed
  qed
qed

text \<open>
  A request whose second photo has lost its temporary file, and the request whose
  photos are both there.
\<close>

theorem entry_appended_only_after_photos_stored_witness:
  "fst (storePhotos [] (\<lambda>i. 5) [photo_a, photo_lost] (files store_A)) \<noteq> None
   \<and> fst (createJournalEntryInFile [] (\<lambda>i. 5) store_A
           (request_A\<lparr>r_files := [photo_a, photo_lost]\<rparr>))
       = Inl (RenameFailed ''uploads/t9'')
   \<and> journal_data (snd (createJournalEntryInFile [] (\<lambda>i. 5) store_A
        (request_A\<lparr>r_files := [photo_a, photo_lost]\<rparr>))) = Some (JsonArray [entry_A, entry_B])
   \<and> fst (createJournalEntryInFile [] (\<lambda>i. 5) store_A request_A) = Inr ()
   \<and> fst (storePhotos [] (\<lambda>i. 5) [photo_a, photo_b] (files store_A)) = None
   \<and> journal_data (snd (createJournalEntryInFile [] (\<lambda>i. 5) store_A request_A)) =
       Some (JsonArray [entry_A, entry_B,
         \<lparr>date = Some ''2025-06-16'', title = Some ''C'', time = None, text' = None,
           color = ''blue'', photos = [''/uploads/5-a.png'', ''/uploads/5-b.png'']\<rparr>])"
  using entry_appended_only_after_photos_stored
          [of "[]" "\<lambda>i. 5" "request_A\<lparr>r_files := [photo_a, photo_lost]\<rparr>" store_A]
        entry_appended_only_after_photos_stored [of "[]" "\<lambda>i. 5" request_A store_A]
  by (simp add: eval_defs)

section \<open>Listing\<close>

text \<open>
  C5 as stated fails on a missing file: \<open>fs.readFile\<close> rejects, the function rethrows,
  and GET /api/journal/all answers 500 instead of an empty array.
\<close>

theorem missing_file_is_an_error:
  "getAllJournalEntriesFromFile \<lparr>journal_data = None, files = []\<rparr> = Inl ENOENT
   \<and> get_journal_all \<lparr>journal_data = None, files = []\<rparr> =
       (Response 500 (ErrorBody ''Failed to fetch journal entries''),
        \<lparr>journal_data = None, files = []\<rparr>)"
  by (simp add: getAllJournalEntriesFromFile_def get_journal_all_def)

text \<open>
  C5, amended. The list operation returns the stored entries in storage order when
  the file holds an array, and the empty sequence when it holds a falsy JSON
  value such as \<open>null\<close>; it fails, and GET /api/journal/all answers 500, when the file is missing
  or does not parse. The store is never changed.
\<close>

theorem list_returns_stored_entries:
  "(journal_data s = Some (JsonArray es) \<longrightarrow>
      getAllJournalEntriesFromFile s = Inr es
      \<and> get_journal_all s = (Response 200 (EntryList es), s))
   \<and> (journal_data s = Some JsonFalsy \<longrightarrow>
      getAllJournalEntriesFromFile s = Inr []
      \<and> get_journal_all s = (Response 200 (EntryList []), s))
   \<and> (journal_data s = None \<longrightarrow>
      getAllJournalEntriesFromFile s = Inl ENOENT
      \<and> get_journal_all s = (Response 500 (ErrorBody ''Failed to fetch journal entries''), s))
   \<and> (journal_data s = Some NotJson \<longrightarrow>
      getAllJournalEntriesFromFile s = Inl SyntaxError
      \<and> get_journal_all s = (Response 500 (ErrorBody ''Failed to fetch journal entries''), s))"
  by (simp add: getAllJournalEntriesFromFile_def get_journal_all_def)

theorem list_returns_stored_entries_witness:
  "journal_data store_A = Some (JsonArray [entry_A, entry_B])
   \<and> get_journal_all store_A = (Response 200 (EntryList [entry_A, entry_B]), store_A)
   \<and> journal_data (store_A\<lparr>journal_data := Some JsonFalsy\<rparr>) = Some JsonFalsy
   \<and> get_journal_all (store_A\<lparr>journal_data := Some JsonFalsy\<rparr>) =
       (Response 200 (EntryList []), store_A\<lparr>journal_data := Some JsonFalsy\<rparr>)
   \<and> journal_data (store_A\<lparr>journal_data := None\<rparr>) = None
   \<and> getAllJournalEntriesFromFile (store_A\<lparr>journal_data := None\<rparr>) = Inl ENOENT
   \<and> journal_data (store_A\<lparr>journal_data := Some NotJson\<rparr>) = Some NotJson
   \<and> getAllJournalEntriesFromFile (store_A\<lparr>journal_data := Some NotJson\<rparr>) = Inl SyntaxError"
  using list_returns_stored_entries [of store_A "[entry_A, entry_B]"]
        list_returns_stored_entries [of "store_A\<lparr>journal_data := Some JsonFalsy\<rparr>" "[]"]
        list_returns_stored_entries [of "store_A\<lparr>journal_data := None\<rparr>" "[]"]
        list_returns_stored_entries [of "store_A\<lparr>journal_data := Some NotJson\<rparr>" "[]"]
  by (simp add: store_A_def)

section \<open>The stored colour\<close>

text \<open>
  C6 as stated fails on a colour outside the enumeration: \<open>color || "blue"\<close> keeps
  every non-empty string, so \<open>magenta\<close> is stored as \<open>magenta\<close>, not as \<open>blue\<close>.
\<close>

theorem unlisted_color_is_stored:
  "createJournalEntryInFile [] (\<lambda>i. 5) store_A
     (request_A\<lparr>r_color := Some ''magenta'', r_files := []\<rparr>) =
     (Inr (), \<lparr>journal_data = Some (JsonArray [entry_A, entry_B,
         \<lparr>date = Some ''2025-06-16'', title = Some ''C'', time = None, text' = None,
           color = ''magenta'', photos = []\<rparr>]),
        files = [''uploads/t1'', ''uploads/t2'']\<rparr>)
   \<and> ''magenta'' \<notin> set NOTE_COLOR_OPTIONS"
  by (simp add: eval_defs NOTE_COLOR_OPTIONS_def)

text \<open>
  C6, amended. When creation succeeds, the entry appended to the collection has the
  requested colour whenever one is supplied and is not the empty string, whether or
  not it belongs to the enumeration, and \<open>blue\<close> when the colour field is absent or
  empty; in particular an entry created without a colour field is stored with
  \<open>color = "blue"\<close>.
\<close>

theorem stored_color:
  assumes "fst (createJournalEntryInFile sched clock s r) = Inr ()"
  shows "\<exists>es e. journal_data (snd (createJournalEntryInFile sched clock s r)) =
                  Some (JsonArray (es @ [e]))
           \<and> getAllJournalEntriesFromFile s = Inr es
           \<and> color e = (case r_color r of
                          None \<Rightarrow> ''blue''
                        | Some c \<Rightarrow> if c = [] then ''blue'' else c)"
proof -
  obtain rej refs fs' where sp:
    "storePhotos sched clock (r_files r) (files s) = (rej, refs, fs')"
    by (cases "storePhotos sched clock (r_files r) (files s)") auto
  show ?thesis
  proof (cases "getAllJournalEntriesFromFile s")
    case (Inl e)
    from create_unreadable [OF Inl] assms show ?thesis by simp
  next
    case (Inr es)
    show ?thesis
    proof (cases rej)
      case None
      with sp have sp': "storePhotos sched clock (r_files r) (files s) = (None, refs, fs')"
        by simp
      from create_stored [OF Inr sp'] Inr show ?thesis by (simp add: or_blue_def)
    next
      case (Some src)
      with sp have sp':
        "storePhotos sched clock (r_files r) (files s) = (Some src, refs, fs')"
        by simp
      from create_rejected [OF Inr sp'] assms show ?thesis by simp
    qed
  qed
qed

text \<open>The request without a colour field.\<close>

theorem stored_color_witness:
  "fst (createJournalEntryInFile [] (\<lambda>i. 5) store_A request_A) = Inr ()
   \<and> r_color request_A = None
   \<and> (\<exists>es e. journal_data (snd (createJournalEntryInFile [] (\<lambda>i. 5) store_A request_A)) =
                  Some (JsonArray (es @ [e]))
           \<and> getAllJournalEntriesFromFile store_A = Inr es
           \<and> color e = ''blue'')"
proof -
  have h: "fst (createJournalEntryInFile [] (\<lambda>i. 5) store_A request_A) = Inr ()"
    by (simp add: eval_defs)
  from stored_color [OF h] h show ?thesis by (simp add: request_A_def)
qed

section \<open>Creation without a title\<close>




section \<open>Memories and reminders\<close>

text \<open>
  C8. In a browser four hours west of UTC (offset \<open>-240\<close>), at noon local time of
  2025-06-15 (16:00 UTC, time value 1750003200000), \<open>today\<close> is local midnight of
  2025-06-15. For an entry dated \<open>2025-06-15\<close>, \<open>new Date(e.date)\<close> is midnight UTC,
  which is 20:00 of 2025-06-14 local time, and \<open>setHours(0, 0, 0, 0)\<close> takes it to
  local midnight of 2025-06-14: the entry of today is listed under the memories and
  not under the reminders, next to the entry of 2025-06-14; only the entry of
  2025-06-16 is a reminder.
\<close>

theorem today_entry_listed_as_memory:
  "today (-240) 1750003200000 = Some (days_from_civil 2025 6 15 * msPerDay + 240 * 60000)
   \<and> memories (-240) 1750003200000 [entry_B, entry_today, entry_tomorrow] =
       [entry_B, entry_today]
   \<and> reminders (-240) 1750003200000 [entry_B, entry_today, entry_tomorrow] =
       [entry_tomorrow]"
  by (simp add: date_defs entry_B_def entry_today_def entry_tomorrow_def)

section \<open>Forecast aggregation\<close>

text \<open>
  C9. For every list of the provider's samples, the aggregation returns one summary
  per date, for the first five dates in the order in which the dates first occur in
  the input: the summary of a date has as \<open>tempMin\<close> the least and as \<open>tempMax\<close> the
  greatest temperature over the samples of that date, and the condition and icon of
  the first sample of that date. So the result has at most five summaries, with
  distinct dates; and \<open>fetchFiveDayForecast\<close> returns it when the key is set and the
  answer carries the list.
\<close>

theorem forecast_aggregation:
  assumes "date_keyed list"
  shows "aggregate list =
           map (day_summary list)
             (take 5 (first_seen (map (\<lambda>item. date_part (dt_txt item)) list)))
       \<and> map date' (aggregate list) =
           take 5 (first_seen (map (\<lambda>item. date_part (dt_txt item)) list))
       \<and> length (aggregate list) \<le> 5
       \<and> distinct (map date' (aggregate list))
       \<and> (key \<noteq> [] \<longrightarrow>
            fetchFiveDayForecast (Some key) (Json (Some list)) = Inr (aggregate list))"
proof -
  let ?ds = "take 5 (first_seen (map (\<lambda>item. date_part (dt_txt item)) list))"
  have dates: "map date' (map (day_summary list) ?ds) = ?ds"
    by (simp add: comp_def day_summary_def)
  have "distinct ?ds" by (simp add: distinct_first_seen)
  then show ?thesis
    by (simp add: aggregate_eq dates fetchFiveDayForecast_def del: map_map)
qed

text \<open>
  Three samples of 2025-06-15 with temperatures 18, 22, 15, and one of 2025-06-16
  between them.
\<close>

theorem forecast_aggregation_witness:
  "date_keyed samples_A
   \<and> ''k'' \<noteq> []
   \<and> fetchFiveDayForecast (Some ''k'') (Json (Some samples_A)) = Inr (aggregate samples_A)
   \<and> aggregate samples_A =
       [\<lparr>date' = ''2025-06-15'', tempMin = 15, tempMax = 22, weather = ''Rain'',
          icon = ''10d''\<rparr>,
        \<lparr>date' = ''2025-06-16'', tempMin = 9, tempMax = 9, weather = ''Clear'',
          icon = ''01d''\<rparr>]"
proof -
  have h: "date_keyed samples_A"
    by (simp add: date_keyed_def samples_A_def date_part_def ymd_def digit_def)
  from forecast_aggregation [OF h, of "''k''"] h show ?thesis
    by (simp add: samples_A_def day_summary_def samples_of_def date_part_def)
qed

section \<open>The two colour-to-class mappings\<close>

text \<open>
  C10 as stated fails on a colour outside the enumeration: the \<open>switch\<close> of
  MonthlyCalendar falls to its default and gives the blue classes, while the table of
  lib/noteColors has no such key and \<open>noteBg\<close> yields no class string.
\<close>

theorem both_noteBg_on_unlisted_color:
  "noteBg_MonthlyCalendar ''magenta'' = ''bg-blue-100 border-blue-200 text-blue-900''
   \<and> noteBg (Some ''magenta'') = None"
  by (simp add: noteBg_MonthlyCalendar_def noteBg_def getNoteColorConfig_def NOTE_COLORS_def)

text \<open>
  C10, amended. The two mappings return the same class string for each of the eight
  colours of the enumeration, and both give the blue classes for an absent colour
  (the one of MonthlyCalendar through its call \<open>noteBg(entry.color ?? 'blue')\<close>). For
  a colour outside the enumeration only the \<open>switch\<close> of MonthlyCalendar gives the
  blue classes; \<open>noteBg\<close> of lib/noteColors, whose parameter type excludes such a
  colour, finds no table entry for it.
\<close>

theorem noteBg_agree_on_listed_colors:
  "(c \<in> set NOTE_COLOR_OPTIONS \<longrightarrow> noteBg (Some c) = Some (noteBg_MonthlyCalendar c))
   \<and> noteBg None = Some ''bg-blue-100 border-blue-200 text-blue-900''
   \<and> cell_noteBg None = ''bg-blue-100 border-blue-200 text-blue-900''
   \<and> (c \<notin> set NOTE_COLOR_OPTIONS \<longrightarrow>
        noteBg_MonthlyCalendar c = ''bg-blue-100 border-blue-200 text-blue-900''
        \<and> noteBg (Some c) = None)"
  by (auto simp: noteBg_MonthlyCalendar_def noteBg_def getNoteColorConfig_def NOTE_COLORS_def
      NOTE_COLOR_OPTIONS_def DEFAULT_COLOR_def cell_noteBg_def)

theorem noteBg_agree_on_listed_colors_witness:
  "''pink'' \<in> set NOTE_COLOR_OPTIONS
   \<and> noteBg (Some ''pink'') = Some ''bg-pink-100 border-pink-200 text-pink-900''
   \<and> noteBg_MonthlyCalendar ''pink'' = ''bg-pink-100 border-pink-200 text-pink-900''
   \<and> ''teal'' \<notin> set NOTE_COLOR_OPTIONS
   \<and> noteBg_MonthlyCalendar ''teal'' = ''bg-blue-100 border-blue-200 text-blue-900''
   \<and> noteBg (Some ''teal'') = None"
  using noteBg_agree_on_listed_colors [of "''pink''"]
        noteBg_agree_on_listed_colors [of "''teal''"]
  by (simp add: NOTE_COLOR_OPTIONS_def noteBg_MonthlyCalendar_def)

end
